theory Spec2Isabelle
  imports Complex_Main "HOL-Library.Multiset"
begin

section \<open>Tabular Q-learning agent (rl/qLearning)\<close>

text \<open>
  JavaScript numbers are modelled as real numbers: arithmetic is exact, rounding,
  NaN and the infinities of IEEE-754 are not represented.  The two action ids
  \<open>ACTION_IDLE = 0\<close> and \<open>ACTION_FLAP = 1\<close> are the constructors of a datatype.
\<close>

datatype action = ACTION_IDLE | ACTION_FLAP

definition ACTIONS :: "action list" where
  "ACTIONS = [ACTION_IDLE, ACTION_FLAP]"

definition alpha :: real where
  "alpha = 0.2"

definition gamma :: real where
  "gamma = 1.0"

text \<open>
  The module variable \<open>Q\<close> is an object used as a dictionary from state keys to row
  objects \<open>{0: v, 1: v}\<close>.  A row is a function from actions to numbers; the table
  is a partial map, \<open>None\<close> standing for a key that the object does not have
  (\<open>Q[state]\<close> is \<open>undefined\<close>).  The keys are the strings that \<open>getStateKey\<close>
  builds (two numbers and a comma); none of them names a property that an object
  inherits, so a lookup finds stored rows only.
\<close>

type_synonym qvalues = "action \<Rightarrow> real"

type_synonym qtable = "string \<rightharpoonup> qvalues"

text \<open>
  \<open>getQ(state)\<close>: when the key is absent a fresh row is stored with every action
  of \<open>ACTIONS\<close> set to 0; the row stored under the key is returned.  The model
  returns the table as well, since the call may have extended it.
\<close>

definition getQ :: "qtable \<Rightarrow> string \<Rightarrow> qtable \<times> qvalues" where
  "getQ Q state =
     (case Q state of
        None \<Rightarrow>
          (let row = fold (\<lambda>action r. r(action := 0)) ACTIONS (\<lambda>_. 0)
           in (Q(state \<mapsto> row), row))
      | Some row \<Rightarrow> (Q, row))"

text \<open>
  \<open>updateQ(state, action, reward, nextState)\<close>.  \<open>qValues\<close> is the row object
  stored under \<open>state\<close>; the second \<open>getQ\<close> leaves that row as it is (it only adds
  a row for \<open>nextState\<close> when that key is new), so the final assignment
  \<open>qValues[action] = ...\<close> replaces the row under \<open>state\<close> by the updated row.
\<close>

definition updateQ :: "qtable \<Rightarrow> string \<Rightarrow> action \<Rightarrow> real \<Rightarrow> string \<Rightarrow> qtable" where
  "updateQ Q state action reward nextState =
     (let (Q1, qValues) = getQ Q state;
          currentQ = qValues action;
          (Q2, nextQValues) = getQ Q1 nextState;
          maxNextQ = max (nextQValues ACTION_IDLE) (nextQValues ACTION_FLAP)
      in Q2(state \<mapsto> qValues(action := currentQ + alpha * (reward + gamma * maxNextQ - currentQ))))"

text \<open>
  The value that a read of \<open>Q[state][action]\<close> through \<open>getQ\<close> yields: the stored
  one, or the 0 of the row that \<open>getQ\<close> creates for an unseen key.
\<close>

definition readQ :: "qtable \<Rightarrow> string \<Rightarrow> action \<Rightarrow> real" where
  "readQ Q state action = snd (getQ Q state) action"

text \<open>
  The value stored at \<open>Q[state][action]\<close>, read without \<open>getQ\<close>: \<open>None\<close> when the
  table has no row for the key.
\<close>

definition valueQ :: "qtable \<Rightarrow> string \<Rightarrow> action \<Rightarrow> real option" where
  "valueQ Q state action = map_option (\<lambda>row. row action) (Q state)"

subsection \<open>Persistence\<close>

text \<open>
  \<open>localStorage\<close> maps keys to strings.  A stored string is represented by what
  \<open>JSON.parse\<close> makes of it: the empty string (falsy, so \<open>if (data)\<close> skips it), a
  non-empty string that \<open>JSON.parse\<close> rejects with a \<open>SyntaxError\<close>, the text
  \<open>null\<close>, a JSON value that is neither \<open>null\<close> nor an object (a property read on
  it gives \<open>undefined\<close>), or a JSON object.  Of an object only the three properties
  that the module reads are kept; \<open>None\<close> stands for a property that is absent or
  \<open>null\<close>.  \<open>JSON.stringify\<close> followed by \<open>JSON.parse\<close> is taken to give the value
  back; how a number is printed is not modelled.
\<close>

datatype error = SyntaxError | TypeError | ShapeError

record brain_data =
  data_Q :: "qtable option"
  data_epsilon :: "real option"
  data_generation :: "int option"

datatype stored_text =
    EmptyText
  | Malformed
  | JsonNull
  | JsonOther
  | JsonObject brain_data

text \<open>
  The module state: the variables \<open>Q\<close> and \<open>epsilon\<close>, and the browser's storage.
  Initially \<open>Q = {}\<close> and \<open>epsilon = 0.3\<close>.
\<close>

record qLearning =
  module_Q :: qtable
  module_epsilon :: real
  localStorage :: "string \<rightharpoonup> stored_text"

definition qLearning_init :: "(string \<rightharpoonup> stored_text) \<Rightarrow> qLearning" where
  "qLearning_init storage = \<lparr>module_Q = Map.empty, module_epsilon = 0.3, localStorage = storage\<rparr>"

text \<open>\<open>setEpsilon(val)\<close> assigns the module variable \<open>epsilon\<close>.\<close>

definition setEpsilon :: "qLearning \<Rightarrow> real \<Rightarrow> qLearning" where
  "setEpsilon st val = st\<lparr>module_epsilon := val\<rparr>"

record load_result =
  success :: bool
  generation :: int

text \<open>The JavaScript \<open>x || d\<close> on a number that may be missing: 0 is falsy.\<close>

definition js_or :: "'a::zero option \<Rightarrow> 'a \<Rightarrow> 'a" where
  "js_or x d = (case x of None \<Rightarrow> d | Some v \<Rightarrow> if v = 0 then d else v)"

definition saveBrain :: "qLearning \<Rightarrow> int \<Rightarrow> qLearning" where
  "saveBrain st gen =
     (let data = \<lparr>data_Q = Some (module_Q st),
                  data_epsilon = Some (module_epsilon st),
                  data_generation = Some (js_or (Some gen) 1)\<rparr>
      in st\<lparr>localStorage := (localStorage st)(''flappy_brain'' \<mapsto> JsonObject data)\<rparr>)"

text \<open>
  \<open>loadBrain()\<close> has no exception handler: a \<open>SyntaxError\<close> of \<open>JSON.parse\<close> and the
  \<open>TypeError\<close> of \<open>parsed.Q\<close> on \<open>null\<close> leave the function as exceptions (\<open>Inl\<close>).
\<close>

definition loadBrain :: "qLearning \<Rightarrow> error + qLearning \<times> load_result" where
  "loadBrain st =
     (case localStorage st ''flappy_brain'' of
        None \<Rightarrow> Inr (st, \<lparr>success = False, generation = 1\<rparr>)
      | Some EmptyText \<Rightarrow> Inr (st, \<lparr>success = False, generation = 1\<rparr>)
      | Some Malformed \<Rightarrow> Inl SyntaxError
      | Some JsonNull \<Rightarrow> Inl TypeError
      | Some JsonOther \<Rightarrow> Inr (st, \<lparr>success = False, generation = 1\<rparr>)
      | Some (JsonObject parsed) \<Rightarrow>
          (case data_Q parsed of
             None \<Rightarrow> Inr (st, \<lparr>success = False, generation = 1\<rparr>)
           | Some q \<Rightarrow>
               Inr (st\<lparr>module_Q := q,
                        module_epsilon := js_or (data_epsilon parsed) (module_epsilon st)\<rparr>,
                    \<lparr>success = True, generation = js_or (data_generation parsed) 1\<rparr>)))"

section \<open>Replay buffer (rl/dqn)\<close>

text \<open>
  The continuous state is an array of numbers.  A transition is the object
  \<open>{state, action, reward, nextState, done}\<close>.
\<close>

type_synonym state_repr = "real list"

record transition =
  state :: state_repr
  action :: action
  reward :: real
  nextState :: state_repr
  done_flag :: bool

record ReplayBuffer =
  maxSize :: nat
  buffer :: "transition list"

definition new_ReplayBuffer :: "nat \<Rightarrow> ReplayBuffer" where
  "new_ReplayBuffer n = \<lparr>maxSize = n, buffer = []\<rparr>"

text \<open>\<open>shift()\<close> removes the first element and leaves an empty array empty.\<close>

definition add :: "ReplayBuffer \<Rightarrow> transition \<Rightarrow> ReplayBuffer" where
  "add b transition =
     (let shifted = (if length (buffer b) \<ge> maxSize b then tl (buffer b) else buffer b)
      in b\<lparr>buffer := shifted @ [transition]\<rparr>)"

definition size_buffer :: "ReplayBuffer \<Rightarrow> nat" where
  "size_buffer b = length (buffer b)"

text \<open>
  An array read \<open>xs[i]\<close> at an integer index: \<open>undefined\<close> (\<open>None\<close>) outside the array.
\<close>

definition js_index :: "'a list \<Rightarrow> int \<Rightarrow> 'a option" where
  "js_index xs i = (if 0 \<le> i \<and> i < int (length xs) then Some (xs ! nat i) else None)"

text \<open>
  \<open>Math.random()\<close> is an oracle: the stream \<open>rnd\<close> gives the successive draws of one
  call of a sampling method, each of them in the interval from 0 (included) to 1
  (excluded).
\<close>

definition unit_draws :: "(nat \<Rightarrow> real) \<Rightarrow> bool" where
  "unit_draws rnd = (\<forall>k. 0 \<le> rnd k \<and> rnd k < 1)"

definition sampleRandomBasic :: "ReplayBuffer \<Rightarrow> nat \<Rightarrow> (nat \<Rightarrow> real) \<Rightarrow> transition option list" where
  "sampleRandomBasic b batchSize rnd =
     map (\<lambda>i. js_index (buffer b) \<lfloor>rnd i * real (length (buffer b))\<rfloor>) [0..<batchSize]"

text \<open>
  The shuffle loop \<open>for (i = batch.length - 1; i > 0; i--)\<close>, with \<open>k\<close> the number of
  draws made before this iteration.
\<close>

fun shuffle_loop :: "(nat \<Rightarrow> real) \<Rightarrow> nat \<Rightarrow> nat \<Rightarrow> 'a list \<Rightarrow> 'a list" where
  "shuffle_loop rnd k 0 batch = batch"
| "shuffle_loop rnd k (Suc i) batch =
     (let j = nat \<lfloor>rnd k * real (Suc i + 1)\<rfloor>
      in shuffle_loop rnd (k + 1) i (batch[Suc i := batch ! j, j := batch ! Suc i]))"

definition shuffle :: "(nat \<Rightarrow> real) \<Rightarrow> nat \<Rightarrow> 'a list \<Rightarrow> 'a list" where
  "shuffle rnd k batch = shuffle_loop rnd k (length batch - 1) batch"

definition sampleLastPrioritizedAndRandom ::
    "ReplayBuffer \<Rightarrow> nat \<Rightarrow> (nat \<Rightarrow> real) \<Rightarrow> transition option list" where
  "sampleLastPrioritizedAndRandom b batchSize rnd =
     (let recentPercentage = 0.25;
          numRecent = nat \<lfloor>real batchSize * recentPercentage\<rfloor>;
          numRandom = batchSize - numRecent;
          recentStart = nat (max 0 (int (length (buffer b)) - int numRecent));
          recent = map (\<lambda>i. js_index (buffer b) (int i)) (rev [recentStart..<length (buffer b)]);
          random = (if numRandom > 0 \<and> length (buffer b) > 0
                    then map (\<lambda>i. js_index (buffer b) \<lfloor>rnd i * real (length (buffer b))\<rfloor>)
                           [0..<numRandom]
                    else [])
      in shuffle rnd (length random) (recent @ random))"

fun cumsum_from :: "real \<Rightarrow> real list \<Rightarrow> real list" where
  "cumsum_from acc [] = []"
| "cumsum_from acc (p # ps) = (acc + p) # cumsum_from (acc + p) ps"

text \<open>
  The binary search \<open>while (low <= high)\<close>; a comparison with \<open>undefined\<close> is false.
\<close>

function bsearch :: "real list \<Rightarrow> real \<Rightarrow> int \<Rightarrow> int \<Rightarrow> int" where
  "bsearch cumsum rand low high =
     (if low \<le> high then
        (if (case js_index cumsum ((low + high) div 2) of
               None \<Rightarrow> False | Some c \<Rightarrow> c \<ge> rand)
         then bsearch cumsum rand low ((low + high) div 2 - 1)
         else bsearch cumsum rand ((low + high) div 2 + 1) high)
      else low)"
  by pat_completeness auto
termination
  by (relation "measure (\<lambda>(cumsum, rand, low, high). nat (high - low + 1))") auto

definition sampleRewardPrioritized ::
    "ReplayBuffer \<Rightarrow> nat \<Rightarrow> (nat \<Rightarrow> real) \<Rightarrow> transition option list" where
  "sampleRewardPrioritized b batchSize rnd =
     (if length (buffer b) = 0 then []
      else
        let absRewards = map (\<lambda>t. \<bar>reward t\<bar> + 1.0) (buffer b);
            total = foldl (+) 0 absRewards;
            probs = map (\<lambda>r. r / total) absRewards;
            cumsum = cumsum_from 0 probs;
            batch = map (\<lambda>i. js_index (buffer b)
                                (bsearch cumsum (rnd i) 0 (int (length cumsum) - 1)))
                      [0..<batchSize]
        in shuffle rnd batchSize batch)"

section \<open>Neural agent (rl/dqn)\<close>

definition gamma_dqn :: real where
  "gamma_dqn = 0.99"

definition EPSILON_MIN :: real where
  "EPSILON_MIN = 0.001"

definition EPSILON_DECAY :: real where
  "EPSILON_DECAY = 0.9995"

definition BATCH_SIZE :: nat where
  "BATCH_SIZE = 64"

definition REPLAY_BUFFER_SIZE :: nat where
  "REPLAY_BUFFER_SIZE = 30000"

definition TARGET_UPDATE_FREQ :: nat where
  "TARGET_UPDATE_FREQ = 500"

definition TRAIN_THROTTLE :: nat where
  "TRAIN_THROTTLE = 2"

text \<open>
  The state that the game scene hands to the agent (\<open>Game.update\<close>):
  \<open>[dx / 1000, dy / 400, velY / 1000, gapHeight / 400]\<close>.
\<close>

definition currentState :: "real \<Rightarrow> real \<Rightarrow> real \<Rightarrow> real \<Rightarrow> state_repr" where
  "currentState dx dy velY gapHeight = [dx / 1000, dy / 400, velY / 1000, gapHeight / 400]"

text \<open>
  \<open>tf.tensor2d(values, [rows, cols])\<close> raises an error unless \<open>values\<close> has \<open>rows\<close>
  rows of \<open>cols\<close> numbers each.
\<close>

definition tensor2d :: "real list list \<Rightarrow> nat \<times> nat \<Rightarrow> error + real list list" where
  "tensor2d values shape =
     (if length values = fst shape \<and> list_all (\<lambda>row. length row = snd shape) values
      then Inr values else Inl ShapeError)"

text \<open>
  A network built by \<open>createModel\<close> (input shape \<open>[7]\<close>, a last layer of 2 units) is
  represented by the function that it computes from one input row to the two
  action values.  \<open>setWeights(getWeights())\<close> copies that function.
\<close>

type_synonym network = "real list \<Rightarrow> action \<Rightarrow> real"

record DQNAgent =
  model :: network
  targetModel :: network
  replayBuffer :: ReplayBuffer
  stepCount :: nat
  trainingInProgress :: bool
  epsilon :: real

definition new_DQNAgent :: "network \<Rightarrow> DQNAgent" where
  "new_DQNAgent net =
     \<lparr>model = net, targetModel = net, replayBuffer = new_ReplayBuffer REPLAY_BUFFER_SIZE,
      stepCount = 0, trainingInProgress = False, epsilon = 0.5\<rparr>"

definition decayEpsilon :: "DQNAgent \<Rightarrow> DQNAgent" where
  "decayEpsilon ag =
     (if epsilon ag > EPSILON_MIN
      then (let e = epsilon ag * EPSILON_DECAY
            in ag\<lparr>epsilon := (if e < EPSILON_MIN then EPSILON_MIN else e)\<rparr>)
      else ag)"

definition getQValues :: "DQNAgent \<Rightarrow> state_repr \<Rightarrow> error + (action \<Rightarrow> real)" where
  "getQValues ag s =
     (case tensor2d [s] (1, 7) of
        Inl e \<Rightarrow> Inl e
      | Inr stateTensor \<Rightarrow> Inr (model ag (hd stateTensor)))"

text \<open>
  The targets of one training step.  \<open>dones\<close> holds \<open>done ? 1 : 0\<close>; \<open>notDone\<close> is
  \<open>logicalNot(cast(done, 'bool'))\<close>, which multiplies as 1 or 0.
\<close>

definition notDone :: "real \<Rightarrow> real" where
  "notDone d = of_bool (\<not> (d \<noteq> 0))"

definition targetQ :: "network \<Rightarrow> transition \<Rightarrow> real" where
  "targetQ targetNet t =
     (let maxNextQ = max (targetNet (nextState t) ACTION_IDLE) (targetNet (nextState t) ACTION_FLAP)
      in reward t + maxNextQ * gamma_dqn * notDone (if done_flag t then 1 else 0))"

definition compute_targets :: "network \<Rightarrow> network \<Rightarrow> transition list \<Rightarrow> (action \<Rightarrow> real) list" where
  "compute_targets net targetNet batch =
     map (\<lambda>t. (net (state t))(action t := targetQ targetNet t)) batch"

text \<open>
  \<open>train()\<close> is an \<open>async\<close> function: it runs without interruption up to
  \<open>await this.model.fit(...)\<close> and is resumed when the fit has settled.  \<open>train_begin\<close>
  is the part before the \<open>await\<close>: it ends by returning, by raising an error, or by
  waiting for the fit of the state tensor against the targets.  \<open>train_resume\<close> is the
  part after it, run on the agent as it is then, with the network that the fit produced
  (\<open>None\<close> when the fit was rejected, which the \<open>catch\<close> block logs).
\<close>

datatype outcome = Returned | Raised error | Awaiting "real list list" "(action \<Rightarrow> real) list"

definition train_begin :: "DQNAgent \<Rightarrow> (nat \<Rightarrow> real) \<Rightarrow> DQNAgent \<times> outcome" where
  "train_begin ag rnd =
     (let ag1 = ag\<lparr>stepCount := stepCount ag + 1\<rparr> in
      if stepCount ag1 mod TRAIN_THROTTLE \<noteq> 0 then (ag1, Returned)
      else if size_buffer (replayBuffer ag1) < BATCH_SIZE then (ag1, Returned)
      else if trainingInProgress ag1 then (ag1, Returned)
      else
        (let ag2 = ag1\<lparr>trainingInProgress := True\<rparr>;
             batch = sampleLastPrioritizedAndRandom (replayBuffer ag2) BATCH_SIZE rnd
         in if \<not> list_all (\<lambda>entry. entry \<noteq> None) batch then (ag2, Raised TypeError)
            else
              (case tensor2d (map (\<lambda>entry. state (the entry)) batch) (BATCH_SIZE, 7) of
                 Inl e \<Rightarrow> (ag2, Raised e)
               | Inr stateTensor \<Rightarrow>
                   (case tensor2d (map (\<lambda>entry. nextState (the entry)) batch) (BATCH_SIZE, 7) of
                      Inl e \<Rightarrow> (ag2, Raised e)
                    | Inr nextStateTensor \<Rightarrow>
                        (ag2, Awaiting stateTensor
                                (compute_targets (model ag2) (targetModel ag2) (map the batch)))))))"

definition train_resume :: "DQNAgent \<Rightarrow> network option \<Rightarrow> DQNAgent" where
  "train_resume ag fitted =
     (let ag1 = (case fitted of
                   Some net \<Rightarrow> decayEpsilon (ag\<lparr>model := net\<rparr>)
                 | None \<Rightarrow> ag);
          ag2 = ag1\<lparr>trainingInProgress := False\<rparr>
      in if stepCount ag2 mod TARGET_UPDATE_FREQ = 0
         then ag2\<lparr>targetModel := model ag2\<rparr>
         else ag2)"

text \<open>
  One invocation that nothing interleaves with; \<open>fit\<close> is the result of one gradient
  step of a network on the given inputs and targets.
\<close>

definition train ::
    "(network \<Rightarrow> real list list \<Rightarrow> (action \<Rightarrow> real) list \<Rightarrow> network option)
      \<Rightarrow> DQNAgent \<Rightarrow> (nat \<Rightarrow> real) \<Rightarrow> DQNAgent \<times> outcome" where
  "train fit ag rnd =
     (case train_begin ag rnd of
        (ag', Awaiting stateTensor targets) \<Rightarrow>
          (train_resume ag' (fit (model ag') stateTensor targets), Returned)
      | (ag', out) \<Rightarrow> (ag', out))"

section \<open>Example inputs\<close>

text \<open>
  The transition that the game scene records on a frame with no pipe ahead: the state
  is built from the defaults \<open>dx = 1000, dy = 0, velY = 0, gapHeight = 300\<close>, the
  reward is \<open>1 + 0 + 0\<close>.
\<close>

definition frame_transition :: transition where
  "frame_transition =
     \<lparr>state = currentState 1000 0 0 300, action = ACTION_IDLE, reward = 1,
      nextState = currentState 1000 0 0 300, done_flag = False\<rparr>"

text \<open>
  The agent after the scene has recorded 64 such frames, calling \<open>train()\<close> after each
  of the first 63.
\<close>

definition agent_after_64_frames :: DQNAgent where
  "agent_after_64_frames =
     \<lparr>model = (\<lambda>_ _. 0), targetModel = (\<lambda>_ _. 0),
      replayBuffer = \<lparr>maxSize = REPLAY_BUFFER_SIZE, buffer = replicate 64 frame_transition\<rparr>,
      stepCount = 63, trainingInProgress = False, epsilon = 0.5\<rparr>"

text \<open>
  A transition whose states have the 7 elements that the network takes, and an agent
  at step 499 that holds 64 of them, whose online network differs from its target
  network, with a training step waiting for its fit.
\<close>

definition wide_transition :: transition where
  "wide_transition =
     \<lparr>state = replicate 7 0, action = ACTION_IDLE, reward = 1,
      nextState = replicate 7 0, done_flag = False\<rparr>"

definition agent_in_flight :: DQNAgent where
  "agent_in_flight =
     \<lparr>model = (\<lambda>_ _. 1), targetModel = (\<lambda>_ _. 0),
      replayBuffer = \<lparr>maxSize = REPLAY_BUFFER_SIZE, buffer = replicate 64 wide_transition\<rparr>,
      stepCount = 499, trainingInProgress = True, epsilon = 0.5\<rparr>"

text \<open>
  A tabular module that has learned one update and whose exploration rate has decayed
  to 0.05, with nothing stored yet.
\<close>

definition trained_module :: qLearning where
  "trained_module =
     \<lparr>module_Q = updateQ Map.empty ''3,-1'' ACTION_FLAP 10 ''2,-1'',
      module_epsilon = 0.05, localStorage = Map.empty\<rparr>"

text \<open>Transitions told apart by their reward.\<close>

definition probe :: "real \<Rightarrow> transition" where
  "probe r = \<lparr>state = [], action = ACTION_IDLE, reward = r, nextState = [], done_flag = False\<rparr>"

section \<open>Properties of the tabular agent\<close>

lemma fresh_row: "fold (\<lambda>action r. r(action := 0)) ACTIONS (\<lambda>_. 0) = (\<lambda>_. 0::real)"
  by (auto simp: ACTIONS_def)

lemma getQ_row: "snd (getQ Q s) = (case Q s of None \<Rightarrow> (\<lambda>_. 0) | Some row \<Rightarrow> row)"
  by (simp add: getQ_def fresh_row Let_def split: option.splits)

lemma getQ_table: "fst (getQ Q s) = (case Q s of None \<Rightarrow> Q(s \<mapsto> (\<lambda>_. 0)) | Some row \<Rightarrow> Q)"
  by (simp add: getQ_def fresh_row Let_def split: option.splits)

lemma getQ_stored: "fst (getQ Q s) s = Some (snd (getQ Q s))"
  by (simp add: getQ_def Let_def split: option.splits)

lemma getQ_keeps_row: "fst (getQ Q s) s' = Some row \<Longrightarrow> fst (getQ (fst (getQ Q s)) s'') s' = Some row"
  by (auto simp: getQ_table split: option.splits if_splits)

lemma updateQ_unfold:
  "updateQ Q s a r s' =
     (fst (getQ (fst (getQ Q s)) s'))
       (s \<mapsto> (snd (getQ Q s))
          (a := readQ Q s a + alpha * (r + gamma * max (readQ (fst (getQ Q s)) s' ACTION_IDLE)
                                                     (readQ (fst (getQ Q s)) s' ACTION_FLAP)
                                    - readQ Q s a)))"
  by (simp add: updateQ_def readQ_def Let_def split_beta)

lemma readQ_case: "readQ Q s a = (case Q s of None \<Rightarrow> 0 | Some row \<Rightarrow> row a)"
  by (simp add: readQ_def getQ_row split: option.splits)

lemma readQ_after_getQ: "readQ (fst (getQ Q s)) s' a = readQ Q s' a"
  by (simp add: readQ_case getQ_table split: option.splits)

lemma updateQ_value:
  "valueQ (updateQ Q s a r s') s a =
     Some (readQ Q s a + alpha * (r + gamma * max (readQ Q s' ACTION_IDLE) (readQ Q s' ACTION_FLAP)
                                  - readQ Q s a))"
  by (simp add: updateQ_unfold valueQ_def readQ_after_getQ)

lemma updateQ_dom: "dom (updateQ Q s a r s') = dom Q \<union> {s, s'}"
  by (auto simp: updateQ_unfold getQ_table split: option.splits if_splits)

lemma updateQ_other_key:
  assumes "k \<noteq> s"
  shows "updateQ Q s a r s' k = (if k = s' \<and> Q k = None then Some (\<lambda>_. 0) else Q k)"
  using assms by (auto simp: updateQ_unfold getQ_table split: option.splits)

lemma updateQ_other_action:
  assumes "b \<noteq> a"
  shows "valueQ (updateQ Q s a r s') s b = Some (readQ Q s b)"
  using assms by (simp add: updateQ_unfold valueQ_def readQ_def)

text \<open>
  Claim C1.  The update stores at \<open>Q[state][action]\<close> the old value plus
  \<open>alpha * (reward + gamma * max(Q[nextState][IDLE], Q[nextState][FLAP]) - old value)\<close>,
  where every value is read after lazy initialisation: a key that the table does not
  have reads as 0 for both actions, and after the call both \<open>state\<close> and \<open>nextState\<close>
  are keys of the table.  With an old value of 0, reward 10 and a maximum of 0 at
  \<open>nextState\<close> the stored value is 2 (alpha is 0.2 and gamma is 1).
\<close>

theorem updateQ_bellman:
  "valueQ (updateQ Q s a r s') s a =
     Some (readQ Q s a + alpha * (r + gamma * max (readQ Q s' ACTION_IDLE) (readQ Q s' ACTION_FLAP)
                                  - readQ Q s a))
   \<and> (\<forall>k b. readQ Q k b = (case Q k of None \<Rightarrow> 0 | Some row \<Rightarrow> row b))
   \<and> s \<in> dom (updateQ Q s a r s') \<and> s' \<in> dom (updateQ Q s a r s')
   \<and> (readQ Q s a = 0 \<and> r = 10 \<and> max (readQ Q s' ACTION_IDLE) (readQ Q s' ACTION_FLAP) = 0
        \<longrightarrow> valueQ (updateQ Q s a r s') s a = Some 2)"
proof -
  have dom: "s \<in> dom (updateQ Q s a r s') \<and> s' \<in> dom (updateQ Q s a r s')"
    by (simp add: updateQ_dom)
  have special: "readQ Q s a = 0 \<and> r = 10 \<and> max (readQ Q s' ACTION_IDLE) (readQ Q s' ACTION_FLAP) = 0
        \<longrightarrow> valueQ (updateQ Q s a r s') s a = Some 2"
    by (simp add: updateQ_value alpha_def gamma_def)
  from dom special show ?thesis
    by (simp add: updateQ_value readQ_case)
qed

theorem updateQ_bellman_witness:
  "valueQ (updateQ Map.empty ''3,-1'' ACTION_FLAP 10 ''2,-1'') ''3,-1'' ACTION_FLAP = Some 2
   \<and> ''3,-1'' \<in> dom (updateQ Map.empty ''3,-1'' ACTION_FLAP 10 ''2,-1'')
   \<and> ''2,-1'' \<in> dom (updateQ Map.empty ''3,-1'' ACTION_FLAP 10 ''2,-1'')"
  using updateQ_bellman [of Map.empty "''3,-1''" ACTION_FLAP 10 "''2,-1''"]
  by (simp add: readQ_case alpha_def gamma_def)

text \<open>
  Claim C10.  \<open>updateQ\<close> changes nothing but \<open>Q[state][action]\<close>: the keys of the table
  afterwards are the old keys together with \<open>state\<close> and \<open>nextState\<close>; every entry
  other than \<open>Q[state][action]\<close> under a key that the table had keeps its value;
  and every such entry under a key that the call added is 0.
\<close>

theorem updateQ_frame:
  "dom (updateQ Q s a r s') = dom Q \<union> {s, s'}
   \<and> (\<forall>k b. (k, b) \<noteq> (s, a) \<longrightarrow> k \<in> dom Q
          \<longrightarrow> valueQ (updateQ Q s a r s') k b = valueQ Q k b)
   \<and> (\<forall>k b. (k, b) \<noteq> (s, a) \<longrightarrow> k \<notin> dom Q \<longrightarrow> k \<in> {s, s'}
          \<longrightarrow> valueQ (updateQ Q s a r s') k b = Some 0)"
proof (intro conjI allI impI)
  show "dom (updateQ Q s a r s') = dom Q \<union> {s, s'}"
    by (rule updateQ_dom)
next
  fix k b
  assume ne: "(k, b) \<noteq> (s, a)" and old: "k \<in> dom Q"
  show "valueQ (updateQ Q s a r s') k b = valueQ Q k b"
  proof (cases "k = s")
    case True
    with ne have "b \<noteq> a" by simp
    then have "valueQ (updateQ Q s a r s') s b = Some (readQ Q s b)"
      by (rule updateQ_other_action)
    moreover from True old have "valueQ Q s b = Some (readQ Q s b)"
      by (auto simp: valueQ_def readQ_case)
    ultimately show ?thesis using True by simp
  next
    case False
    with old show ?thesis
      by (auto simp: updateQ_other_key valueQ_def)
  qed
next
  fix k b
  assume ne: "(k, b) \<noteq> (s, a)" and new: "k \<notin> dom Q" and k: "k \<in> {s, s'}"
  show "valueQ (updateQ Q s a r s') k b = Some 0"
  proof (cases "k = s")
    case True
    with ne have "b \<noteq> a" by simp
    with True new show ?thesis
      by (simp add: updateQ_other_action readQ_case domIff)
  next
    case False
    with new k show ?thesis
      by (simp add: updateQ_other_key valueQ_def domIff)
  qed
qed

theorem updateQ_frame_witness:
  "dom (updateQ [''0,0'' \<mapsto> (\<lambda>_. 0)(ACTION_FLAP := 3), ''5,5'' \<mapsto> (\<lambda>_. 7)]
          ''0,0'' ACTION_IDLE 10 ''1,0'') = {''0,0'', ''5,5'', ''1,0''}
   \<and> valueQ (updateQ [''0,0'' \<mapsto> (\<lambda>_. 0)(ACTION_FLAP := 3), ''5,5'' \<mapsto> (\<lambda>_. 7)]
          ''0,0'' ACTION_IDLE 10 ''1,0'') ''0,0'' ACTION_FLAP = Some 3
   \<and> valueQ (updateQ [''0,0'' \<mapsto> (\<lambda>_. 0)(ACTION_FLAP := 3), ''5,5'' \<mapsto> (\<lambda>_. 7)]
          ''0,0'' ACTION_IDLE 10 ''1,0'') ''5,5'' ACTION_IDLE = Some 7
   \<and> valueQ (updateQ [''0,0'' \<mapsto> (\<lambda>_. 0)(ACTION_FLAP := 3), ''5,5'' \<mapsto> (\<lambda>_. 7)]
          ''0,0'' ACTION_IDLE 10 ''1,0'') ''1,0'' ACTION_FLAP = Some 0"
proof -
  let ?Q = "[''0,0'' \<mapsto> (\<lambda>_. 0)(ACTION_FLAP := 3), ''5,5'' \<mapsto> (\<lambda>_. 7::real)]"
  note frame = updateQ_frame [of ?Q "''0,0''" ACTION_IDLE 10 "''1,0''"]
  note kept = frame [THEN conjunct2, THEN conjunct1, rule_format]
  note added = frame [THEN conjunct2, THEN conjunct2, rule_format]
  have d: "dom (updateQ ?Q ''0,0'' ACTION_IDLE 10 ''1,0'') = {''0,0'', ''5,5'', ''1,0''}"
    using frame [THEN conjunct1] by auto
  have "valueQ (updateQ ?Q ''0,0'' ACTION_IDLE 10 ''1,0'') ''0,0'' ACTION_FLAP
          = valueQ ?Q ''0,0'' ACTION_FLAP"
    by (rule kept) simp_all
  then have v1: "valueQ (updateQ ?Q ''0,0'' ACTION_IDLE 10 ''1,0'') ''0,0'' ACTION_FLAP = Some 3"
    by (simp add: valueQ_def)
  have "valueQ (updateQ ?Q ''0,0'' ACTION_IDLE 10 ''1,0'') ''5,5'' ACTION_IDLE
          = valueQ ?Q ''5,5'' ACTION_IDLE"
    by (rule kept) simp_all
  then have v2: "valueQ (updateQ ?Q ''0,0'' ACTION_IDLE 10 ''1,0'') ''5,5'' ACTION_IDLE = Some 7"
    by (simp add: valueQ_def)
  have v3: "valueQ (updateQ ?Q ''0,0'' ACTION_IDLE 10 ''1,0'') ''1,0'' ACTION_FLAP = Some 0"
    by (rule added) simp_all
  from d v1 v2 v3 show ?thesis by simp
qed

section \<open>Properties of the persistence functions\<close>

lemma saveBrain_loadBrain:
  "loadBrain (saveBrain st gen) =
     Inr (saveBrain st gen, \<lparr>success = True, generation = (if gen = 0 then 1 else gen)\<rparr>)"
  by (simp add: loadBrain_def saveBrain_def js_or_def Let_def)

lemma loadBrain_missing:
  "localStorage st ''flappy_brain'' = None \<Longrightarrow>
     loadBrain st = Inr (st, \<lparr>success = False, generation = 1\<rparr>)"
  by (simp add: loadBrain_def)

lemma loadBrain_from_saved:
  assumes "localStorage st2 = localStorage (saveBrain st gen)"
  shows "loadBrain st2 =
           Inr (st2\<lparr>module_Q := module_Q st,
                    module_epsilon := (if module_epsilon st = 0 then module_epsilon st2
                                       else module_epsilon st)\<rparr>,
                \<lparr>success = True, generation = (if gen = 0 then 1 else gen)\<rparr>)"
  using assms by (simp add: loadBrain_def saveBrain_def js_or_def Let_def)

text \<open>
  Claim C5.  The claim says that \<open>loadBrain\<close> of either agent treats a stored text that
  does not parse like a missing one.  The tabular \<open>loadBrain\<close> calls \<open>JSON.parse\<close> with
  no handler around it: on the initial module with such a text under \<open>flappy_brain\<close>
  it ends with the \<open>SyntaxError\<close>, where a missing record gives
  \<open>{success: false, generation: 1}\<close> (lemma \<open>loadBrain_missing\<close>).
\<close>

theorem loadBrain_corrupt:
  "loadBrain (qLearning_init [''flappy_brain'' \<mapsto> Malformed]) = Inl SyntaxError"
  by (simp add: loadBrain_def qLearning_init_def)

text \<open>
  Claim C6, as stated, read as the spec's test reads it (the record is loaded by a fresh
  module).  The saving module has exploration rate 0, set with \<open>setEpsilon(0)\<close> (the
  rate of the spec's no-exploration test), and saves with generation 7.  A fresh module
  that loads the record reports success and generation 7 and takes the saved table, but
  its exploration rate stays at its own 0.3: \<open>parsed.epsilon || epsilon\<close> treats the
  saved 0 as missing.
\<close>

theorem save_load_exploration_zero:
  "loadBrain (qLearning_init (localStorage (saveBrain (setEpsilon trained_module 0) 7)))
     = Inr ((qLearning_init (localStorage (saveBrain (setEpsilon trained_module 0) 7)))
              \<lparr>module_Q := module_Q trained_module\<rparr>,
            \<lparr>success = True, generation = 7\<rparr>)
   \<and> module_epsilon (setEpsilon trained_module 0) = 0
   \<and> module_epsilon ((qLearning_init (localStorage (saveBrain (setEpsilon trained_module 0) 7)))
                        \<lparr>module_Q := module_Q trained_module\<rparr>) = 0.3"
proof -
  let ?saver = "setEpsilon trained_module 0"
  let ?loader = "qLearning_init (localStorage (saveBrain ?saver 7))"
  have "localStorage ?loader = localStorage (saveBrain ?saver 7)"
    by (simp add: qLearning_init_def)
  then have "loadBrain ?loader =
           Inr (?loader\<lparr>module_Q := module_Q ?saver,
                    module_epsilon := (if module_epsilon ?saver = 0 then module_epsilon ?loader
                                       else module_epsilon ?saver)\<rparr>,
                \<lparr>success = True, generation = (if (7::int) = 0 then 1 else 7)\<rparr>)"
    by (rule loadBrain_from_saved)
  then show ?thesis
    by (simp add: setEpsilon_def qLearning_init_def)
qed

text \<open>
  Claim C6, amended.  Let a module with any table and exploration rate call
  \<open>saveBrain(generation)\<close>, and let any module that has the resulting storage (the
  saving module itself, or a fresh one) call \<open>loadBrain()\<close>.  The load succeeds and
  the loading module takes the saved table, whatever table it had.  It reports the
  saved generation, except that a generation of 0 is stored and reported as 1.  It
  takes the saved exploration rate, except that a saved rate of 0 leaves the loading
  module's own rate in place.  In particular, for a generation and a rate other than
  0, the generation, the table and the exploration rate after the load are the saved
  ones.
\<close>

theorem save_load_roundtrip:
  assumes "localStorage loader = localStorage (saveBrain st gen)"
  shows "loadBrain loader =
           Inr (loader\<lparr>module_Q := module_Q st,
                       module_epsilon := (if module_epsilon st = 0 then module_epsilon loader
                                          else module_epsilon st)\<rparr>,
                \<lparr>success = True, generation = (if gen = 0 then 1 else gen)\<rparr>)
         \<and> (gen \<noteq> 0 \<and> module_epsilon st \<noteq> 0 \<longrightarrow>
              loadBrain loader =
                Inr (loader\<lparr>module_Q := module_Q st, module_epsilon := module_epsilon st\<rparr>,
                     \<lparr>success = True, generation = gen\<rparr>))"
  using loadBrain_from_saved [OF assms] by simp

theorem save_load_roundtrip_witness:
  "loadBrain (qLearning_init (localStorage (saveBrain trained_module 7)))
     = Inr ((qLearning_init (localStorage (saveBrain trained_module 7)))
              \<lparr>module_Q := updateQ Map.empty ''3,-1'' ACTION_FLAP 10 ''2,-1'',
                module_epsilon := 0.05\<rparr>,
            \<lparr>success = True, generation = 7\<rparr>)
   \<and> loadBrain (saveBrain trained_module 7)
     = Inr (saveBrain trained_module 7, \<lparr>success = True, generation = 7\<rparr>)"
proof -
  let ?loader = "qLearning_init (localStorage (saveBrain trained_module 7))"
  have fresh: "localStorage ?loader = localStorage (saveBrain trained_module 7)"
    by (simp add: qLearning_init_def)
  have same: "localStorage (saveBrain trained_module 7) = localStorage (saveBrain trained_module 7)"
    by simp
  have "loadBrain ?loader
     = Inr (?loader\<lparr>module_Q := updateQ Map.empty ''3,-1'' ACTION_FLAP 10 ''2,-1'',
                      module_epsilon := 0.05\<rparr>,
            \<lparr>success = True, generation = 7\<rparr>)"
    using save_load_roundtrip [OF fresh] by (simp add: trained_module_def)
  moreover have "loadBrain (saveBrain trained_module 7)
     = Inr (saveBrain trained_module 7, \<lparr>success = True, generation = 7\<rparr>)"
    using save_load_roundtrip [OF same] by (simp add: trained_module_def saveBrain_def)
  ultimately show ?thesis by simp
qed

section \<open>Properties of the replay buffer\<close>

lemma add_buffer:
  "buffer (add b t) = (if length (buffer b) \<ge> maxSize b then tl (buffer b) else buffer b) @ [t]"
  by (simp add: add_def)

lemma add_maxSize: "maxSize (add b t) = maxSize b"
  by (simp add: add_def)

lemma foldl_add_maxSize: "maxSize (foldl add b ts) = maxSize b"
  by (induction ts arbitrary: b) (simp_all add: add_maxSize)

lemma foldl_add_buffer:
  assumes "0 < maxSize b" "length (buffer b) \<le> maxSize b"
  shows "buffer (foldl add b ts) = drop (length (buffer b) + length ts - maxSize b) (buffer b @ ts)"
  using assms
proof (induction ts arbitrary: b)
  case Nil
  then show ?case by simp
next
  case (Cons t ts)
  have m: "maxSize (add b t) = maxSize b" by (rule add_maxSize)
  have len: "length (buffer (add b t)) \<le> maxSize b"
    using Cons.prems by (auto simp: add_buffer)
  have "buffer (foldl add (add b t) ts)
          = drop (length (buffer (add b t)) + length ts - maxSize b) (buffer (add b t) @ ts)"
    using Cons.IH [of "add b t"] Cons.prems len m by simp
  also have "\<dots> = drop (length (buffer b) + length (t # ts) - maxSize b) (buffer b @ t # ts)"
  proof (cases "length (buffer b) \<ge> maxSize b")
    case True
    with Cons.prems have eq: "length (buffer b) = maxSize b" by simp
    with Cons.prems obtain x xs where xs: "buffer b = x # xs" by (cases "buffer b") auto
    with eq True show ?thesis by (simp add: add_buffer)
  next
    case False
    then show ?thesis by (simp add: add_buffer)
  qed
  finally show ?case by simp
qed

text \<open>
  Claim C3.  For a buffer of capacity \<open>C > 0\<close>, after any sequence \<open>ts\<close> of adds to the
  new buffer its size is at most \<open>C\<close> and it holds the last \<open>C\<close> transitions of \<open>ts\<close> in
  insertion order; an add at capacity drops the oldest transition (the head) and
  appends, an add below capacity only appends.
\<close>

theorem replay_buffer_fifo:
  assumes "0 < C"
  shows "size_buffer (foldl add (new_ReplayBuffer C) ts) \<le> C
         \<and> maxSize (foldl add (new_ReplayBuffer C) ts) = C
         \<and> buffer (foldl add (new_ReplayBuffer C) ts) = drop (length ts - C) ts
         \<and> (size_buffer (foldl add (new_ReplayBuffer C) ts) = C \<longrightarrow>
              buffer (add (foldl add (new_ReplayBuffer C) ts) t)
                = tl (buffer (foldl add (new_ReplayBuffer C) ts)) @ [t])
         \<and> (size_buffer (foldl add (new_ReplayBuffer C) ts) < C \<longrightarrow>
              buffer (add (foldl add (new_ReplayBuffer C) ts) t)
                = buffer (foldl add (new_ReplayBuffer C) ts) @ [t])"
proof -
  let ?b = "foldl add (new_ReplayBuffer C) ts"
  have m: "maxSize ?b = C"
    by (simp add: foldl_add_maxSize new_ReplayBuffer_def)
  have content: "buffer ?b = drop (length ts - C) ts"
    using foldl_add_buffer [of "new_ReplayBuffer C" ts] assms
    by (simp add: new_ReplayBuffer_def)
  then have "size_buffer ?b \<le> C"
    by (simp add: size_buffer_def)
  with m content show ?thesis
    by (simp add: add_buffer size_buffer_def)
qed

theorem replay_buffer_fifo_witness:
  "buffer (foldl add (new_ReplayBuffer 3) [probe 1, probe 2, probe 3, probe 4])
     = [probe 2, probe 3, probe 4]
   \<and> size_buffer (foldl add (new_ReplayBuffer 3) [probe 1, probe 2, probe 3, probe 4]) \<le> 3
   \<and> probe 1 \<notin> set (buffer (foldl add (new_ReplayBuffer 3) [probe 1, probe 2, probe 3, probe 4]))"
  using replay_buffer_fifo [of 3 "[probe 1, probe 2, probe 3, probe 4]"]
  by (simp add: probe_def)

subsection \<open>Sampling\<close>

lemma draw_floor_less:
  assumes "0 \<le> r" "r < 1" "0 < n"
  shows "\<lfloor>r * real n\<rfloor> < int n"
proof -
  from assms have "r * real n < real n" by simp
  then show ?thesis by (simp add: floor_less_iff)
qed

lemma draw_index_nat:
  assumes "0 \<le> r" "r < 1" "0 < n"
  shows "nat \<lfloor>r * real n\<rfloor> < n"
proof -
  from assms(1) have "0 \<le> \<lfloor>r * real n\<rfloor>" by simp
  with draw_floor_less [OF assms] show ?thesis by (simp only: nat_less_iff)
qed

lemma js_index_draw:
  assumes "0 \<le> r" "r < 1" "0 < length xs"
  shows "js_index xs \<lfloor>r * real (length xs)\<rfloor> = Some (xs ! nat \<lfloor>r * real (length xs)\<rfloor>)"
proof -
  from assms(1) have "0 \<le> \<lfloor>r * real (length xs)\<rfloor>" by simp
  with draw_floor_less [OF assms] show ?thesis by (simp only: js_index_def simp_thms if_True)
qed

lemma shuffle_loop_mset:
  assumes "unit_draws rnd" "i < length xs"
  shows "mset (shuffle_loop rnd k i xs) = mset xs"
  using assms(2)
proof (induction i arbitrary: k xs)
  case 0
  then show ?case by simp
next
  case (Suc i)
  let ?j = "nat \<lfloor>rnd k * real (Suc i + 1)\<rfloor>"
  from assms(1) have "0 \<le> rnd k" "rnd k < 1" by (simp_all add: unit_draws_def)
  then have "?j < Suc i + 1" by (intro draw_index_nat) simp_all
  with Suc.prems have j: "?j < length xs" by simp
  let ?ys = "xs[Suc i := xs ! ?j, ?j := xs ! Suc i]"
  from j Suc.prems have sw: "mset ?ys = mset xs" by (simp add: mset_swap)
  from Suc.prems have "i < length ?ys" by simp
  then have "mset (shuffle_loop rnd (k + 1) i ?ys) = mset ?ys" by (rule Suc.IH)
  with sw show ?case by (simp add: Let_def)
qed

lemma shuffle_mset:
  assumes "unit_draws rnd"
  shows "mset (shuffle rnd k xs) = mset xs"
proof (cases xs)
  case Nil
  then show ?thesis by (simp add: shuffle_def)
next
  case (Cons x xs')
  then have "length xs - 1 < length xs" by simp
  with assms show ?thesis unfolding shuffle_def by (rule shuffle_loop_mset)
qed

lemma shuffle_set: "unit_draws rnd \<Longrightarrow> set (shuffle rnd k xs) = set xs"
  by (metis shuffle_mset set_mset_mset)

lemma shuffle_length: "unit_draws rnd \<Longrightarrow> length (shuffle rnd k xs) = length xs"
  by (metis shuffle_mset size_mset)

lemma sampleLast_entries:
  assumes "unit_draws rnd"
  shows "set (sampleLastPrioritizedAndRandom b batchSize rnd) \<subseteq> Some ` set (buffer b)"
proof -
  let ?buf = "buffer b"
  let ?n = "length ?buf"
  have recent: "js_index ?buf (int i) \<in> Some ` set ?buf" if "i < ?n" for i
    using that by (simp add: js_index_def)
  have random: "js_index ?buf \<lfloor>rnd i * real ?n\<rfloor> \<in> Some ` set ?buf" if "0 < ?n" for i
  proof -
    from assms have "0 \<le> rnd i" "rnd i < 1" by (simp_all add: unit_draws_def)
    from js_index_draw [OF this that] draw_index_nat [OF this that] show ?thesis
      by simp
  qed
  show ?thesis
    using assms recent random
    by (auto simp: sampleLastPrioritizedAndRandom_def Let_def shuffle_set)
qed

lemma sampleLast_length:
  assumes "unit_draws rnd" "batchSize \<le> length (buffer b)" 
  shows "length (sampleLastPrioritizedAndRandom b batchSize rnd) = batchSize"
proof -
  have "nat \<lfloor>real batchSize * 0.25\<rfloor> \<le> batchSize"
    by (simp add: nat_le_iff floor_le_iff) 
  with assms show ?thesis
    by (auto simp: sampleLastPrioritizedAndRandom_def Let_def shuffle_length)
qed

lemma sampleRandomBasic_empty:
  "buffer b = [] \<Longrightarrow> sampleRandomBasic b batchSize rnd = replicate batchSize None"
  by (simp add: sampleRandomBasic_def js_index_def map_replicate_const)

lemma sampleLast_empty:
  "buffer b = [] \<Longrightarrow> sampleLastPrioritizedAndRandom b batchSize rnd = []"
  by (simp add: sampleLastPrioritizedAndRandom_def shuffle_def Let_def)

lemma sampleReward_empty:
  "buffer b = [] \<Longrightarrow> sampleRewardPrioritized b batchSize rnd = []"
  by (simp add: sampleRewardPrioritized_def)

text \<open>
  Claim C7.  The claim says that every sampling strategy returns an empty batch on an
  empty buffer.  \<open>sampleRewardPrioritized\<close> returns early and
  \<open>sampleLastPrioritizedAndRandom\<close> guards its random part with
  \<open>this.buffer.length > 0\<close>; \<open>sampleRandomBasic\<close> has no such guard and pushes
  \<open>this.buffer[0]\<close>, which is \<open>undefined\<close>, once per requested item.
\<close>

theorem sampleRandomBasic_empty_buffer:
  "sampleRandomBasic (new_ReplayBuffer REPLAY_BUFFER_SIZE) 2 rnd = [None, None]
   \<and> sampleLastPrioritizedAndRandom (new_ReplayBuffer REPLAY_BUFFER_SIZE) 2 rnd = []
   \<and> sampleRewardPrioritized (new_ReplayBuffer REPLAY_BUFFER_SIZE) 2 rnd = []"
  by (simp add: sampleRandomBasic_empty sampleLast_empty sampleReward_empty new_ReplayBuffer_def
        numeral_2_eq_2)

section \<open>Properties of the neural agent\<close>

lemma targetQ_done: "done_flag t \<Longrightarrow> targetQ targetNet t = reward t"
  by (simp add: targetQ_def notDone_def)

text \<open>
  Claim C2.  For a batch entry with \<open>done = true\<close> the training target of the taken
  action is the entry's reward, and replacing the entry's \<open>nextState\<close> leaves the
  computed targets of the whole batch as they were.
\<close>

theorem terminal_target_is_reward:
  assumes "i < length batch" and "done_flag (batch ! i)"
  shows "(compute_targets net targetNet batch ! i) (action (batch ! i)) = reward (batch ! i)
         \<and> compute_targets net targetNet (batch[i := (batch ! i)\<lparr>nextState := s'\<rparr>])
             = compute_targets net targetNet batch"
proof -
  let ?t = "batch ! i"
  from assms(2) have same: "targetQ targetNet (?t\<lparr>nextState := s'\<rparr>) = targetQ targetNet ?t"
    by (simp add: targetQ_done)
  have "(compute_targets net targetNet batch ! i) (action ?t) = targetQ targetNet ?t"
    using assms(1) by (simp add: compute_targets_def)
  with assms(2) have tgt: "(compute_targets net targetNet batch ! i) (action ?t) = reward ?t"
    by (simp add: targetQ_done)
  have "compute_targets net targetNet (batch[i := ?t\<lparr>nextState := s'\<rparr>])
          = (compute_targets net targetNet batch)
              [i := (net (state ?t))(action ?t := targetQ targetNet (?t\<lparr>nextState := s'\<rparr>))]"
    by (simp add: compute_targets_def map_update)
  also have "\<dots> = compute_targets net targetNet batch"
    using assms(1) by (simp add: same compute_targets_def list_update_same_conv)
  finally show ?thesis using tgt by simp
qed

theorem terminal_target_is_reward_witness:
  "(compute_targets (\<lambda>s a. 5) (\<lambda>s a. sum_list s)
      [\<lparr>state = [1], action = ACTION_FLAP, reward = -100, nextState = [2], done_flag = True\<rparr>] ! 0)
     ACTION_FLAP = -100
   \<and> compute_targets (\<lambda>s a. 5) (\<lambda>s a. sum_list s)
        [\<lparr>state = [1], action = ACTION_FLAP, reward = -100, nextState = [9], done_flag = True\<rparr>]
      = compute_targets (\<lambda>s a. 5) (\<lambda>s a. sum_list s)
        [\<lparr>state = [1], action = ACTION_FLAP, reward = -100, nextState = [2], done_flag = True\<rparr>]"
  using terminal_target_is_reward
    [of 0 "[\<lparr>state = [1], action = ACTION_FLAP, reward = -100, nextState = [2], done_flag = True\<rparr>]"
        "\<lambda>s a. 5" "\<lambda>s a. sum_list s" "[9]"]
  by simp

lemma tensor2d_wrong_width:
  assumes "\<And>row. row \<in> set rows \<Longrightarrow> length row \<noteq> c" "0 < r"
  shows "tensor2d rows (r, c) = Inl ShapeError"
proof (cases rows)
  case Nil
  with assms(2) show ?thesis by (simp add: tensor2d_def)
next
  case (Cons x xs)
  with assms(1) [of x] show ?thesis by (simp add: tensor2d_def)
qed

lemma train_begin_shape_error:
  assumes draws: "unit_draws rnd"
    and step: "(stepCount ag + 1) mod TRAIN_THROTTLE = 0"
    and full: "BATCH_SIZE \<le> size_buffer (replayBuffer ag)"
    and idle: "\<not> trainingInProgress ag"
    and width: "\<And>t. t \<in> set (buffer (replayBuffer ag)) \<Longrightarrow> length (state t) \<noteq> 7"
  shows "train_begin ag rnd
           = (ag\<lparr>stepCount := stepCount ag + 1, trainingInProgress := True\<rparr>, Raised ShapeError)"
proof -
  let ?batch = "sampleLastPrioritizedAndRandom (replayBuffer ag) BATCH_SIZE rnd"
  from draws have sub: "set ?batch \<subseteq> Some ` set (buffer (replayBuffer ag))"
    by (rule sampleLast_entries)
  then have some: "list_all (\<lambda>entry. entry \<noteq> None) ?batch"
    by (auto simp: list_all_iff)
  have "tensor2d (map (\<lambda>entry. state (the entry)) ?batch) (BATCH_SIZE, 7) = Inl ShapeError"
  proof (rule tensor2d_wrong_width)
    fix row
    assume "row \<in> set (map (\<lambda>entry. state (the entry)) ?batch)"
    with sub width show "length row \<noteq> 7" by auto
  next
    show "0 < BATCH_SIZE" by (simp add: BATCH_SIZE_def)
  qed
  with step full idle some show ?thesis
    by (simp add: train_begin_def Let_def)
qed

lemma train_begin_in_flight:
  assumes "trainingInProgress ag"
  shows "train_begin ag rnd = (ag\<lparr>stepCount := stepCount ag + 1\<rparr>, Returned)"
  using assms by (simp add: train_begin_def Let_def)

lemma train_begin_small_buffer:
  assumes "size_buffer (replayBuffer ag) < BATCH_SIZE"
  shows "train_begin ag rnd = (ag\<lparr>stepCount := stepCount ag + 1\<rparr>, Returned)"
  using assms by (simp add: train_begin_def Let_def)

lemma train_resume_releases: "trainingInProgress (train_resume ag fitted) = False"
  by (simp add: train_resume_def Let_def decayEpsilon_def split: option.splits)

lemma tensor2d_right_shape:
  assumes "length rows = r" and "\<And>row. row \<in> set rows \<Longrightarrow> length row = c"
  shows "tensor2d rows (r, c) = Inr rows"
  using assms by (simp add: tensor2d_def list_all_iff)

lemma train_completes:
  assumes draws: "unit_draws rnd"
    and step: "(stepCount ag + 1) mod TRAIN_THROTTLE = 0"
    and full: "BATCH_SIZE \<le> size_buffer (replayBuffer ag)"
    and idle: "\<not> trainingInProgress ag"
    and width: "\<And>t. t \<in> set (buffer (replayBuffer ag))
                  \<Longrightarrow> length (state t) = 7 \<and> length (nextState t) = 7"
  shows "snd (train fit ag rnd) = Returned \<and> \<not> trainingInProgress (fst (train fit ag rnd))"
proof -
  let ?batch = "sampleLastPrioritizedAndRandom (replayBuffer ag) BATCH_SIZE rnd"
  from draws have sub: "set ?batch \<subseteq> Some ` set (buffer (replayBuffer ag))"
    by (rule sampleLast_entries)
  then have some: "list_all (\<lambda>entry. entry \<noteq> None) ?batch"
    by (auto simp: list_all_iff)
  from draws full have len: "length ?batch = BATCH_SIZE"
    by (simp add: sampleLast_length size_buffer_def)
  have s: "tensor2d (map (\<lambda>entry. state (the entry)) ?batch) (BATCH_SIZE, 7)
             = Inr (map (\<lambda>entry. state (the entry)) ?batch)"
  proof (rule tensor2d_right_shape)
    show "length (map (\<lambda>entry. state (the entry)) ?batch) = BATCH_SIZE"
      using len by simp
  next
    fix row
    assume "row \<in> set (map (\<lambda>entry. state (the entry)) ?batch)"
    with sub width show "length row = 7" by auto
  qed
  have n: "tensor2d (map (\<lambda>entry. nextState (the entry)) ?batch) (BATCH_SIZE, 7)
             = Inr (map (\<lambda>entry. nextState (the entry)) ?batch)"
  proof (rule tensor2d_right_shape)
    show "length (map (\<lambda>entry. nextState (the entry)) ?batch) = BATCH_SIZE"
      using len by simp
  next
    fix row
    assume "row \<in> set (map (\<lambda>entry. nextState (the entry)) ?batch)"
    with sub width show "length row = 7" by auto
  qed
  from step full idle some s n
  have "\<exists>x y. train_begin ag rnd
           = (ag\<lparr>stepCount := stepCount ag + 1, trainingInProgress := True\<rparr>, Awaiting x y)"
    by (simp add: train_begin_def Let_def)
  then show ?thesis
    by (auto simp: train_def train_resume_releases)
qed

lemma train_completes_example:
  "\<not> trainingInProgress
       (fst (train fit (agent_in_flight\<lparr>stepCount := 63, trainingInProgress := False\<rparr>) (\<lambda>_. 0)))"
  using train_completes
    [of "\<lambda>_. 0" "agent_in_flight\<lparr>stepCount := 63, trainingInProgress := False\<rparr>" fit]
  by (simp add: unit_draws_def agent_in_flight_def TRAIN_THROTTLE_def BATCH_SIZE_def
        size_buffer_def wide_transition_def)

text \<open>
  Claim C4.  A call of \<open>train()\<close> while a step is in flight only counts the step
  (lemma \<open>train_begin_in_flight\<close>), and the \<open>finally\<close> block clears the flag whether
  the fit succeeded or was rejected (lemmas \<open>train_resume_releases\<close>, \<open>train_completes\<close>).  The claim says
  that the flag is cleared on every exit path of an attempted step.  The tensors are
  created after the flag is set and before the \<open>try\<close> block: on the agent that has
  recorded 64 frames of the game the creation of the state tensor raises, the flag
  stays set, and the next attempt is skipped as if a step were in flight.
\<close>

theorem train_leaves_flag_set:
  "train fit agent_after_64_frames (\<lambda>_. 0)
     = (agent_after_64_frames\<lparr>stepCount := 64, trainingInProgress := True\<rparr>, Raised ShapeError)
   \<and> train fit (agent_after_64_frames\<lparr>stepCount := 65, trainingInProgress := True\<rparr>) (\<lambda>_. 0)
     = (agent_after_64_frames\<lparr>stepCount := 66, trainingInProgress := True\<rparr>, Returned)"
proof -
  have "train_begin agent_after_64_frames (\<lambda>_. 0)
     = (agent_after_64_frames\<lparr>stepCount := stepCount agent_after_64_frames + 1,
                               trainingInProgress := True\<rparr>, Raised ShapeError)"
    by (rule train_begin_shape_error)
      (simp_all add: unit_draws_def agent_after_64_frames_def TRAIN_THROTTLE_def BATCH_SIZE_def
         size_buffer_def frame_transition_def currentState_def)
  then have first: "train fit agent_after_64_frames (\<lambda>_. 0)
     = (agent_after_64_frames\<lparr>stepCount := 64, trainingInProgress := True\<rparr>, Raised ShapeError)"
    by (simp add: train_def agent_after_64_frames_def)
  have "train_begin (agent_after_64_frames\<lparr>stepCount := 65, trainingInProgress := True\<rparr>) (\<lambda>_. 0)
     = (agent_after_64_frames\<lparr>stepCount := 66, trainingInProgress := True\<rparr>, Returned)"
    by (simp add: train_begin_in_flight)
  then have "train fit (agent_after_64_frames\<lparr>stepCount := 65, trainingInProgress := True\<rparr>) (\<lambda>_. 0)
     = (agent_after_64_frames\<lparr>stepCount := 66, trainingInProgress := True\<rparr>, Returned)"
    by (simp add: train_def)
  with first show ?thesis by simp
qed

text \<open>
  Claim C8.  The claim says that the target network is synchronised by the end of every
  invocation whose step count is a multiple of 500, skipped steps included.  The check
  is the last statement of \<open>train()\<close>, after the early returns: the invocation that
  brings the step count to 500 while a step is in flight returns with the target
  network still different from the online network.
\<close>

theorem train_skips_target_sync:
  "train fit agent_in_flight rnd = (agent_in_flight\<lparr>stepCount := 500\<rparr>, Returned)
   \<and> stepCount (fst (train fit agent_in_flight rnd)) mod TARGET_UPDATE_FREQ = 0
   \<and> targetModel (fst (train fit agent_in_flight rnd)) \<noteq> model (fst (train fit agent_in_flight rnd))"
proof -
  have "train_begin agent_in_flight rnd = (agent_in_flight\<lparr>stepCount := 500\<rparr>, Returned)"
    by (simp add: train_begin_in_flight agent_in_flight_def)
  then have "train fit agent_in_flight rnd = (agent_in_flight\<lparr>stepCount := 500\<rparr>, Returned)"
    by (simp add: train_def)
  then show ?thesis
    by (simp add: agent_in_flight_def TARGET_UPDATE_FREQ_def fun_eq_iff)
qed

text \<open>
  Claim C9.  The state that the game scene builds has 4 elements.  The claim says that
  the action-value functions map it to 2 action values; \<open>getQValues\<close> asks for a tensor
  of shape \<open>[1, 7]\<close>, as \<open>createModel\<close> declares the input shape \<open>[7]\<close>, and raises on
  every such state.
\<close>

theorem network_rejects_game_state:
  "length (currentState dx dy velY gapHeight) = 4
   \<and> getQValues ag (currentState dx dy velY gapHeight) = Inl ShapeError"
  by (simp add: currentState_def getQValues_def tensor2d_def)

end
